theory Spec2Isabelle
  imports Complex_Main "HOL-Library.Word"
begin

section \<open>Values of the JavaScript run-time\<close>

text \<open>
  A Node \<^verbatim>\<open>Buffer\<close> is a list of bytes. Reading it at an index it does not have
  gives \<^verbatim>\<open>undefined\<close> (it never throws), which is \<open>None\<close> here.
\<close>

type_synonym byte = "8 word"
type_synonym buffer = "byte list"

definition buf_at :: "buffer \<Rightarrow> nat \<Rightarrow> byte option" where
  "buf_at b i = (if i < length b then Some (b ! i) else None)"

text \<open>
  A JavaScript number is a rational or \<^verbatim>\<open>NaN\<close>. The only numbers the program computes are
  \<open>n / 10\<close> for an integer \<open>n < 65536\<close>; \<open>Num q\<close> stands for the double nearest to \<open>q\<close>,
  which \<^verbatim>\<open>JSON.stringify\<close> prints as the decimal \<open>q\<close> itself. \<^verbatim>\<open>undefined\<close> converts to
  \<^verbatim>\<open>NaN\<close>, and \<^verbatim>\<open>NaN\<close> is absorbing for the three operations below.
\<close>

datatype number = Num rat | NaN

definition to_number :: "byte option \<Rightarrow> number" where
  "to_number v = (case v of None \<Rightarrow> NaN | Some b \<Rightarrow> Num (of_nat (unat b)))"

fun js_mul :: "number \<Rightarrow> number \<Rightarrow> number" where
  "js_mul (Num a) (Num b) = Num (a * b)"
| "js_mul _ _ = NaN"

fun js_add :: "number \<Rightarrow> number \<Rightarrow> number" where
  "js_add (Num a) (Num b) = Num (a + b)"
| "js_add _ _ = NaN"

fun js_div10 :: "number \<Rightarrow> number" where
  "js_div10 (Num a) = Num (a / 10)"
| "js_div10 NaN = NaN"

text \<open>
  A JavaScript string made from the bytes of a device is the list of its UTF-16 code
  units. The texts the program writes itself, and the address, are ASCII and stay of type
  \<open>string\<close>; \<open>js\<close> gives the JavaScript string of such a text.
\<close>

type_synonym js_string = "nat list"

definition js :: "string \<Rightarrow> js_string" where
  "js s = map of_char s"

text \<open>
  \<^verbatim>\<open>Buffer.toString()\<close> decodes UTF-8. A byte sequence that is not well formed becomes
  U+FFFD, one for every maximal part of a sequence, and the byte that ended the part is
  decoded again as the start of a sequence; nothing is removed, a byte order mark
  neither. \<open>lead_byte\<close> is the step on the first byte of a sequence: what is put out, the
  bits of the code point so far, the number of bytes that must follow, and the bounds of
  the next byte. \<open>utf8_decode cp needed lower upper\<close> goes through the bytes with that state.
\<close>

definition lead_byte :: "nat \<Rightarrow> nat list \<times> nat \<times> nat \<times> nat \<times> nat" where
  "lead_byte b =
     (if b < 0x80 then ([b], 0, 0, 0x80, 0xBF)
      else if 0xC2 \<le> b \<and> b \<le> 0xDF then ([], b mod 32, 1, 0x80, 0xBF)
      else if 0xE0 \<le> b \<and> b \<le> 0xEF then
        ([], b mod 16, 2, (if b = 0xE0 then 0xA0 else 0x80), (if b = 0xED then 0x9F else 0xBF))
      else if 0xF0 \<le> b \<and> b \<le> 0xF4 then
        ([], b mod 8, 3, (if b = 0xF0 then 0x90 else 0x80), (if b = 0xF4 then 0x8F else 0xBF))
      else ([0xFFFD], 0, 0, 0x80, 0xBF))"

fun utf8_decode :: "nat \<Rightarrow> nat \<Rightarrow> nat \<Rightarrow> nat \<Rightarrow> nat list \<Rightarrow> nat list" where
  "utf8_decode cp needed lower upper [] = (if needed = 0 then [] else [0xFFFD])"
| "utf8_decode cp needed lower upper (b # bs) =
     (if needed = 0 then
        (case lead_byte b of (out, cp', needed', lower', upper') \<Rightarrow>
           out @ utf8_decode cp' needed' lower' upper' bs)
      else if lower \<le> b \<and> b \<le> upper then
        (if needed = 1 then (cp * 64 + b mod 64) # utf8_decode 0 0 0x80 0xBF bs
         else utf8_decode (cp * 64 + b mod 64) (needed - 1) 0x80 0xBF bs)
      else
        (case lead_byte b of (out, cp', needed', lower', upper') \<Rightarrow>
           0xFFFD # out @ utf8_decode cp' needed' lower' upper' bs))"

text \<open>A code point above U+FFFF is two code units of the string, a surrogate pair.\<close>

definition utf16 :: "nat \<Rightarrow> nat list" where
  "utf16 cp =
     (if cp < 0x10000 then [cp]
      else [0xD800 + (cp - 0x10000) div 0x400, 0xDC00 + (cp - 0x10000) mod 0x400])"

definition toString :: "buffer \<Rightarrow> js_string" where
  "toString b = concat (map utf16 (utf8_decode 0 0 0x80 0xBF (map unat b)))"

section \<open>The stats packet (lines 234 to 247 of \<^verbatim>\<open>connect\<close>)\<close>

text \<open>
  The object printed for one packet. Its \<^verbatim>\<open>timestamp\<close> is the wall clock and is left out.
\<close>

record reading =
  address :: string
  deviceName :: js_string
  relayIsOn :: bool
  roomTemperature :: number
  targetTemperature :: number

text \<open>
  \<^verbatim>\<open>if (stats[0] === 0x80) { targetTemperature = (256 * stats[2] + stats[1]) / 10; ... }\<close>:
  \<open>None\<close> when the first byte is not \<open>0x80\<close> (nothing is printed), the printed object otherwise.
\<close>

definition decode :: "string \<Rightarrow> js_string \<Rightarrow> buffer \<Rightarrow> reading option" where
  "decode addr name stats =
     (if buf_at stats 0 = Some 0x80 then
        Some \<lparr> address = addr,
               deviceName = name,
               relayIsOn = (buf_at stats 8 = Some 1),
               roomTemperature =
                 js_div10 (js_add (js_mul (Num 256) (to_number (buf_at stats 5)))
                                  (to_number (buf_at stats 4))),
               targetTemperature =
                 js_div10 (js_add (js_mul (Num 256) (to_number (buf_at stats 2)))
                                  (to_number (buf_at stats 1))) \<rparr>
      else None)"

section \<open>The device name (lines 223 to 226 of \<^verbatim>\<open>connect\<close>)\<close>

text \<open>\<^verbatim>\<open>s.replace(/\x00/g, "")\<close> removes every NUL character of the text.\<close>

definition strip_nulls :: "js_string \<Rightarrow> js_string" where
  "strip_nulls s = filter (\<lambda>c. c \<noteq> 0) s"

text \<open>\<^verbatim>\<open>(await dnameChar.readAsync()).slice(1).toString().replace(/\x00/g, "")\<close>\<close>

definition decodeDeviceName :: "buffer \<Rightarrow> js_string" where
  "decodeDeviceName raw = strip_nulls (toString (drop 1 raw))"

section \<open>The pairing file (lines 75 to 91)\<close>

text \<open>\<^verbatim>\<open>`pairing-${deviceAddress.replace(/:/g, "")}.json`\<close>\<close>

definition pairingFilename :: "string \<Rightarrow> string" where
  "pairingFilename deviceAddress =
     ''pairing-'' @ filter (\<lambda>c. c \<noteq> CHR '':'') deviceAddress @ ''.json''"

text \<open>
  The object \<^verbatim>\<open>{ resetCode }\<close>. The reset code is an array of numbers; the ones the program
  makes are bytes spread out of a buffer.
\<close>

record pairing_info =
  resetCode :: "nat list"

text \<open>
  \<^verbatim>\<open>JSON.stringify\<close> on such an object writes \<^verbatim>\<open>{"resetCode":[170,187,204,221]}\<close>: decimal
  numerals without leading zeros, separated by commas, no white space.
\<close>

definition digit_char :: "nat \<Rightarrow> char" where
  "digit_char d = char_of (48 + d)"

fun show_nat :: "nat \<Rightarrow> string" where
  "show_nat n =
     (if n < 10 then [digit_char n] else show_nat (n div 10) @ [digit_char (n mod 10)])"

declare show_nat.simps [simp del]

fun join_commas :: "string list \<Rightarrow> string" where
  "join_commas [] = []"
| "join_commas [x] = x"
| "join_commas (x # y # ys) = x @ CHR '','' # join_commas (y # ys)"

definition JSON_stringify_array :: "nat list \<Rightarrow> string" where
  "JSON_stringify_array xs = CHR ''['' # join_commas (map show_nat xs) @ [CHR '']'']"

definition resetCode_key :: string where
  "resetCode_key = [CHR ''{'', CHR 0x22] @ ''resetCode'' @ [CHR 0x22, CHR '':'']"

definition JSON_stringify :: "pairing_info \<Rightarrow> string" where
  "JSON_stringify info = resetCode_key @ JSON_stringify_array (resetCode info) @ [CHR ''}'']"

text \<open>
  \<^verbatim>\<open>JSON.parse\<close>, on the texts that \<^verbatim>\<open>JSON.stringify\<close> writes for such an object: the member
  \<^verbatim>\<open>"resetCode"\<close> with an array of unsigned decimal integers, no white space. A text of any
  other form is a \<open>SyntaxError\<close> here (the real parser accepts more JSON than this; the
  model is exact for pairing files written by this program).
\<close>

datatype js_error = ENOENT | SyntaxError | TypeError | TransportError

definition is_digit :: "char \<Rightarrow> bool" where
  "is_digit c = (48 \<le> (of_char c :: nat) \<and> (of_char c :: nat) \<le> 57)"

definition digit_val :: "char \<Rightarrow> nat" where
  "digit_val c = of_char c - 48"

definition parse_number :: "string \<Rightarrow> nat option" where
  "parse_number s =
     (if s \<noteq> [] \<and> list_all is_digit s \<and> (length s = 1 \<or> hd s \<noteq> CHR ''0'')
      then Some (foldl (\<lambda>a c. 10 * a + digit_val c) 0 s) else None)"

fun split_commas :: "string \<Rightarrow> string list" where
  "split_commas [] = [[]]"
| "split_commas (c # cs) =
     (if c = CHR '','' then [] # split_commas cs
      else (case split_commas cs of [] \<Rightarrow> [[c]] | p # ps \<Rightarrow> (c # p) # ps))"

definition parse_array :: "string \<Rightarrow> nat list option" where
  "parse_array s =
     (if s = ''[]'' then Some []
      else if 2 \<le> length s \<and> hd s = CHR ''['' \<and> last s = CHR '']''
      then those (map parse_number (split_commas (butlast (tl s))))
      else None)"

definition JSON_parse :: "string \<Rightarrow> js_error + pairing_info" where
  "JSON_parse text =
     (if take (length resetCode_key) text = resetCode_key \<and> text \<noteq> resetCode_key
         \<and> last text = CHR ''}''
      then (case parse_array (butlast (drop (length resetCode_key) text)) of
              None \<Rightarrow> Inl SyntaxError
            | Some xs \<Rightarrow> Inr \<lparr> resetCode = xs \<rparr>)
      else Inl SyntaxError)"

text \<open>\<^verbatim>\<open>Buffer.from(array)\<close> keeps the low eight bits of every number.\<close>

definition Buffer_from :: "nat list \<Rightarrow> buffer" where
  "Buffer_from xs = map of_nat xs"

section \<open>Configuration, device and world\<close>

text \<open>The module's variables, set from the command line (lines 93 to 130).\<close>

datatype mode = SCAN | READ

record config =
  mode :: mode
  targetDeviceAddress :: string
  verbosity :: nat
  keepReading :: bool

text \<open>
  What an awaited call of the Bluetooth library comes to: it resolves with a value, it
  rejects, or the peripheral disconnects while it is pending (a disconnect during the wait
  of the polling loop is the answer to the read that follows it).
\<close>

datatype 'a io = Done 'a | Rejected | Disconnected

text \<open>
  The answers of the library and the peripheral, one field per call \<^verbatim>\<open>connect\<close> and the
  discover handler make. \<open>stopScanningAsync\<close> says whether that call resolves (no peripheral
  is connected yet). A characteristic is known by its uuid. \<open>statsChar_readAsync\<close> lists
  the answers to the reads of the polling loop that have completed so far, in order.
\<close>

record device =
  stopScanningAsync :: bool
  connectAsync :: "unit io"
  discoverAllServicesAndCharacteristicsAsync :: "string list io"
  resetChar_readAsync :: "buffer io"
  resetChar_writeAsync :: "unit io"
  dnameChar_readAsync :: "buffer io"
  statsChar_readAsync :: "buffer io list"

definition RESET_CHAR_UUID :: string where
  "RESET_CHAR_UUID = ''f366dddbebe243ee83c0472ded74c8fa''"

definition STATS_CHAR_UUID :: string where
  "STATS_CHAR_UUID = ''66ad3e6b31354adabb2b8b22916b21d4''"

definition DNAME_CHAR_UUID :: string where
  "DNAME_CHAR_UUID = ''2a00''"

text \<open>
  Everything the process does to the outside, in order. \<open>WriteChar uuid data withoutResponse\<close>
  is \<^verbatim>\<open>characteristic.writeAsync(data, withoutResponse)\<close>: the library sends a write request,
  which the peripheral acknowledges, when the flag is false, and a write command, which it
  does not acknowledge, when the flag is true.
\<close>

datatype log_arg = Text string | Bytes buffer | Characteristic string

datatype event =
    Warn "log_arg list"
  | ConsoleError js_error
  | Print reading
  | WriteFile string string
  | StopScanning
  | Connect
  | Discover
  | ReadChar string
  | WriteChar string buffer bool
  | Sleep nat

record world =
  files :: "string \<rightharpoonup> string"
  trace :: "event list"

definition emit :: "event \<Rightarrow> world \<Rightarrow> world" where
  "emit e w = w\<lparr> trace := trace w @ [e] \<rparr>"

text \<open>
  A stretch of the program continues with a value, or the process has exited with a code,
  or it is still running: waiting for a read that has not completed.
\<close>

datatype 'a outcome = Continue 'a world | Exited nat world | Running world

definition and_then :: "'a outcome \<Rightarrow> ('a \<Rightarrow> world \<Rightarrow> 'b outcome) \<Rightarrow> 'b outcome" where
  "and_then m k =
     (case m of Continue x w \<Rightarrow> k x w | Exited c w \<Rightarrow> Exited c w | Running w \<Rightarrow> Running w)"

fun world_of :: "'a outcome \<Rightarrow> world" where
  "world_of (Continue x w) = w"
| "world_of (Exited c w) = w"
| "world_of (Running w) = w"

text \<open>\<^verbatim>\<open>function log(level, ...msg) { if (level <= verbosity) console.warn(...msg); }\<close>\<close>

definition log_msg :: "config \<Rightarrow> nat \<Rightarrow> log_arg list \<Rightarrow> world \<Rightarrow> world" where
  "log_msg cfg level msg w = (if level \<le> verbosity cfg then emit (Warn msg) w else w)"

text \<open>
  \<^verbatim>\<open>dieOnError\<close> (lines 9 to 16) handles every exception that leaves an async function.
\<close>

definition dieOnError :: "js_error \<Rightarrow> world \<Rightarrow> 'a outcome" where
  "dieOnError error w = Exited 1 (emit (ConsoleError error) w)"

text \<open>The \<^verbatim>\<open>disconnect\<close> listener (lines 166 to 169).\<close>

definition on_disconnect :: "config \<Rightarrow> world \<Rightarrow> 'a outcome" where
  "on_disconnect cfg w =
     Exited 1 (log_msg cfg 0 [Text ''Error: device disconnected, exiting''] w)"

definition await :: "config \<Rightarrow> 'a io \<Rightarrow> world \<Rightarrow> 'a outcome" where
  "await cfg r w =
     (case r of Done x \<Rightarrow> Continue x w
      | Rejected \<Rightarrow> dieOnError TransportError w
      | Disconnected \<Rightarrow> on_disconnect cfg w)"

text \<open>
  A call on a characteristic that \<^verbatim>\<open>characteristics.find\<close> did not find is a call on
  \<^verbatim>\<open>undefined\<close>: a \<open>TypeError\<close>.
\<close>

definition readAsync :: "config \<Rightarrow> string option \<Rightarrow> buffer io \<Rightarrow> world \<Rightarrow> buffer outcome" where
  "readAsync cfg ch r w =
     (case ch of None \<Rightarrow> dieOnError TypeError w
      | Some uuid \<Rightarrow> await cfg r (emit (ReadChar uuid) w))"

definition writeAsync ::
  "config \<Rightarrow> string option \<Rightarrow> buffer \<Rightarrow> bool \<Rightarrow> unit io \<Rightarrow> world \<Rightarrow> unit outcome" where
  "writeAsync cfg ch data withoutResponse r w =
     (case ch of None \<Rightarrow> dieOnError TypeError w
      | Some uuid \<Rightarrow> await cfg r (emit (WriteChar uuid data withoutResponse) w))"

section \<open>Reading and writing the pairing file (lines 80 to 91)\<close>

text \<open>\<^verbatim>\<open>fs.writeFileSync\<close> creates the file or replaces its content; the write is taken to succeed.\<close>

definition writeFileSync :: "string \<Rightarrow> string \<Rightarrow> world \<Rightarrow> world" where
  "writeFileSync filename data w =
     emit (WriteFile filename data) (w\<lparr> files := (files w)(filename \<mapsto> data) \<rparr>)"

text \<open>
  \<^verbatim>\<open>readPairingInfo\<close> throws when the file is not there (\<open>ENOENT\<close>) or is not JSON; the world
  it returns has the log line.
\<close>

definition readPairingInfo ::
  "config \<Rightarrow> string \<Rightarrow> world \<Rightarrow> (js_error + pairing_info) \<times> world" where
  "readPairingInfo cfg deviceAddress w =
     (let filename = pairingFilename deviceAddress;
          w1 = log_msg cfg 2 [Text (''reading '' @ filename)] w
      in (case files w1 filename of
            None \<Rightarrow> (Inl ENOENT, w1)
          | Some text \<Rightarrow> (JSON_parse text, w1)))"

definition writePairingInfo :: "config \<Rightarrow> string \<Rightarrow> nat list \<Rightarrow> world \<Rightarrow> world" where
  "writePairingInfo cfg deviceAddress code w =
     (let filename = pairingFilename deviceAddress;
          data = JSON_stringify \<lparr> resetCode = code \<rparr>;
          w1 = log_msg cfg 2
                 [Text (''writing '' @ [CHR 0x27] @ data @ [CHR 0x27] @ '' to '' @ filename)] w
      in writeFileSync filename data w1)"

section \<open>\<^verbatim>\<open>connect\<close> (lines 175 to 256)\<close>

text \<open>
  Lines 192 to 220: the reset code is read from the device (pairing) or from the pairing
  file, then written to the reset characteristic with \<^verbatim>\<open>writeAsync(Buffer.from(resetCode), false)\<close>.
\<close>

definition missing_pairing_message :: "string \<Rightarrow> string" where
  "missing_pairing_message addr =
     ''Existing pairing info not found for '' @ addr @ ''. '' @
     ''Please enable pairing on the device and try again.''"

definition obtain_resetCode ::
  "config \<Rightarrow> device \<Rightarrow> string \<Rightarrow> bool \<Rightarrow> string option \<Rightarrow> world \<Rightarrow> nat list outcome" where
  "obtain_resetCode cfg dev addr pairing resetChar w =
     (if pairing then
        and_then (readAsync cfg resetChar (resetChar_readAsync dev)
                    (log_msg cfg 0 [Text ''Pairing...''] w))
          (\<lambda>resetCharMsgFromDevice w1.
             let w2 = log_msg cfg 1 [Text ''Received reset code'', Bytes resetCharMsgFromDevice] w1;
                 code = map unat (take 4 resetCharMsgFromDevice);
                 w3 = writePairingInfo cfg addr code w2
             in Continue code (log_msg cfg 0 [Text ''Pairing successful.''] w3))
      else
        (case readPairingInfo cfg addr w of
           (Inr info, w1) \<Rightarrow> Continue (resetCode info) w1
         | (Inl e, w1) \<Rightarrow> Exited 1 (log_msg cfg 1 [Text (missing_pairing_message addr)] w1)))"

definition authenticate ::
  "config \<Rightarrow> device \<Rightarrow> string \<Rightarrow> bool \<Rightarrow> string option \<Rightarrow> world \<Rightarrow> nat list outcome" where
  "authenticate cfg dev addr pairing resetChar w =
     and_then (obtain_resetCode cfg dev addr pairing resetChar w)
       (\<lambda>code w1.
          and_then (writeAsync cfg resetChar (Buffer_from code) False (resetChar_writeAsync dev)
                      (log_msg cfg 1
                         [Text (''Authenticating with reset code '' @ JSON_stringify_array code)] w1))
            (\<lambda>_ w2. Continue code w2))"

text \<open>
  Lines 228 to 255: the \<^verbatim>\<open>do ... while (keepReading)\<close> loop and the exit after it, run on the
  answers to the reads that have completed. With no answer left the loop is waiting for
  its next read.
\<close>

fun poll ::
  "config \<Rightarrow> string \<Rightarrow> js_string \<Rightarrow> string \<Rightarrow> buffer io list \<Rightarrow> world \<Rightarrow> unit outcome" where
  "poll cfg addr name statsChar [] w = Running (emit (ReadChar statsChar) w)"
| "poll cfg addr name statsChar (r # rs) w =
     and_then (await cfg r (emit (ReadChar statsChar) w))
       (\<lambda>stats w1.
          let w2 = log_msg cfg 2 [Text ''Received stats'', Bytes stats] w1;
              w3 = (case decode addr name stats of
                      Some rd \<Rightarrow> emit (Print rd) w2
                    | None \<Rightarrow> w2)
          in if keepReading cfg
             then poll cfg addr name statsChar rs
                    (emit (Sleep 500) (log_msg cfg 2 [Text ''Waiting...''] w3))
             else Exited 0 w3)"

definition connect :: "config \<Rightarrow> device \<Rightarrow> string \<Rightarrow> bool \<Rightarrow> world \<Rightarrow> unit outcome" where
  "connect cfg dev addr pairing w =
     and_then (await cfg (connectAsync dev) (emit Connect (log_msg cfg 1 [Text ''Connecting''] w)))
       (\<lambda>_ w1.
     and_then (await cfg (discoverAllServicesAndCharacteristicsAsync dev)
                 (emit Discover
                    (log_msg cfg 2 [Text ''Discovering services and characteristics''] w1)))
       (\<lambda>characteristics w2.
          let resetChar = find (\<lambda>c. c = RESET_CHAR_UUID) characteristics;
              statsChar = find (\<lambda>c. c = STATS_CHAR_UUID) characteristics;
              dnameChar = find (\<lambda>c. c = DNAME_CHAR_UUID) characteristics;
              w3 = log_msg cfg 3 (Text ''Characteristics'' # map Characteristic characteristics) w2
          in
     and_then (authenticate cfg dev addr pairing resetChar w3)
       (\<lambda>code w4.
     and_then (readAsync cfg dnameChar (dnameChar_readAsync dev) w4)
       (\<lambda>raw w5.
          (case statsChar of
             None \<Rightarrow> dieOnError TypeError w5
           | Some sc \<Rightarrow> poll cfg addr (decodeDeviceName raw) sc (statsChar_readAsync dev) w5)))))"

section \<open>The discover handler (lines 146 to 173)\<close>

text \<open>
  \<^verbatim>\<open>/^ECO16BT /.test(localName)\<close> converts its argument to a string first: an advertisement
  without a name is tested as the text \<^verbatim>\<open>undefined\<close>.
\<close>

definition String_of :: "string option \<Rightarrow> string" where
  "String_of v = (case v of None \<Rightarrow> ''undefined'' | Some s \<Rightarrow> s)"

definition accepts :: "string option \<Rightarrow> bool" where
  "accepts localName = (take 8 (String_of localName) = ''ECO16BT '')"

text \<open>
  \<^verbatim>\<open>manufacturerData[10] === 49\<close>: indexing a buffer never throws, indexing \<^verbatim>\<open>undefined\<close>
  (an advertisement without manufacturer data) is a \<open>TypeError\<close>.
\<close>

definition pairing_flag :: "buffer option \<Rightarrow> js_error + bool" where
  "pairing_flag manufacturerData =
     (case manufacturerData of
        None \<Rightarrow> Inl TypeError
      | Some md \<Rightarrow> Inr (buf_at md 10 = Some 49))"

definition show_bool :: "bool \<Rightarrow> string" where
  "show_bool b = (if b then ''true'' else ''false'')"

text \<open>
  The handler returns (\<open>Running\<close>: the process goes on scanning) or goes into \<^verbatim>\<open>connect\<close>.
\<close>

definition discover ::
  "config \<Rightarrow> device \<Rightarrow> string \<Rightarrow> string option \<Rightarrow> buffer option \<Rightarrow> world \<Rightarrow> unit outcome" where
  "discover cfg dev addr localName manufacturerData w =
     (if \<not> accepts localName then Running w
      else (case pairing_flag manufacturerData of
              Inl e \<Rightarrow> dieOnError e w
            | Inr pairing \<Rightarrow>
                if mode cfg = SCAN then
                  Running (log_msg cfg 0
                    [Text (''Found '' @ addr @ '' ('' @ String_of localName @ ''), pairing=''
                        @ show_bool pairing)] w)
                else if addr = targetDeviceAddress cfg then
                  (let w1 = emit StopScanning
                              (log_msg cfg 1 [Text ''Found target device, stopping scanning''] w)
                   in if stopScanningAsync dev then connect cfg dev addr pairing w1
                      else dieOnError TransportError w1)
                else Running w))"

section \<open>Observing a run\<close>

text \<open>
  The trace without the log lines (\<open>actions\<close>), the file writes of a trace (\<open>saves\<close>), and
  the exit code of a run that has ended. Two worlds have the \<open>same_store\<close> when they have
  the same files and the same file writes behind them.
\<close>

fun is_Warn :: "event \<Rightarrow> bool" where
  "is_Warn (Warn msg) = True"
| "is_Warn _ = False"

fun is_Print :: "event \<Rightarrow> bool" where
  "is_Print (Print rd) = True"
| "is_Print _ = False"

fun is_WriteFile :: "event \<Rightarrow> bool" where
  "is_WriteFile (WriteFile filename data) = True"
| "is_WriteFile _ = False"

definition actions :: "world \<Rightarrow> event list" where
  "actions w = filter (\<lambda>e. \<not> is_Warn e) (trace w)"

definition saves :: "world \<Rightarrow> event list" where
  "saves w = filter is_WriteFile (trace w)"

definition same_store :: "world \<Rightarrow> world \<Rightarrow> bool" where
  "same_store w w' = (files w' = files w \<and> saves w' = saves w)"

fun exit_code :: "'a outcome \<Rightarrow> nat option" where
  "exit_code (Exited c w) = Some c"
| "exit_code _ = None"

text \<open>
  What one turn of the polling loop does, apart from its log lines and its wait: the read,
  and the printed object when the packet starts with \<open>0x80\<close>.
\<close>

definition iteration_actions :: "string \<Rightarrow> js_string \<Rightarrow> string \<Rightarrow> buffer \<Rightarrow> event list" where
  "iteration_actions addr name sc stats =
     ReadChar sc # (case decode addr name stats of Some rd \<Rightarrow> [Print rd] | None \<Rightarrow> [])"

text \<open>
  A peripheral that answers every call, a read of one device without \<^verbatim>\<open>--verbose\<close> and
  \<^verbatim>\<open>--keep-reading\<close>, and a world with no file and nothing done yet, for the examples.
\<close>

definition example_device :: device where
  "example_device =
     \<lparr> stopScanningAsync = True,
       connectAsync = Done (),
       discoverAllServicesAndCharacteristicsAsync =
         Done [DNAME_CHAR_UUID, RESET_CHAR_UUID, STATS_CHAR_UUID],
       resetChar_readAsync = Done [0xAA, 0xBB, 0xCC, 0xDD, 0x01, 0x02],
       resetChar_writeAsync = Done (),
       dnameChar_readAsync = Done [0x09, 0x4C, 0x69, 0x76, 0x00, 0x00],
       statsChar_readAsync = [Done [0x00, 0x10, 0x20]] \<rparr>"

definition example_config :: config where
  "example_config =
     \<lparr> mode = READ, targetDeviceAddress = ''90:fd:9f:12:34:56'', verbosity = 0,
       keepReading = False \<rparr>"

definition empty_world :: world where
  "empty_world = \<lparr> files = Map.empty, trace = [] \<rparr>"

section \<open>Properties of the stats packet\<close>

text \<open>
  C1. The packet \<open>[0x80, 0xC3, 0x00, 0x00, 0x00, 0xCD, 0x00, 0x00, 0x00, 0x01]\<close> decodes to
  targetTemperature 19.5, roomTemperature 5248 and relayIsOn false: bytes 4 and 5 of that
  packet are \<open>0x00\<close> and \<open>0xCD\<close>, and byte 8 is \<open>0x00\<close>. The packet that has \<open>0xCD\<close> at
  index 4 and \<open>0x01\<close> at index 8 decodes to 19.5, 20.5 and true. For every packet of at
  least nine bytes that starts with \<open>0x80\<close>, targetTemperature is
  \<open>(256 * byte 2 + byte 1) / 10\<close>, roomTemperature is \<open>(256 * byte 5 + byte 4) / 10\<close> and
  relayIsOn is \<open>byte 8 = 1\<close>.
\<close>

theorem decode_stats_packet:
  "decode addr name [0x80, 0xC3, 0x00, 0x00, 0x00, 0xCD, 0x00, 0x00, 0x00, 0x01] =
     Some \<lparr> address = addr, deviceName = name, relayIsOn = False,
            roomTemperature = Num 5248, targetTemperature = Num 19.5 \<rparr>
   \<and> decode addr name [0x80, 0xC3, 0x00, 0x00, 0xCD, 0x00, 0x00, 0x00, 0x01] =
     Some \<lparr> address = addr, deviceName = name, relayIsOn = True,
            roomTemperature = Num 20.5, targetTemperature = Num 19.5 \<rparr>
   \<and> decode addr name (0x80 # b1 # b2 # b3 # b4 # b5 # b6 # b7 # b8 # rest) =
     Some \<lparr> address = addr, deviceName = name, relayIsOn = (b8 = 1),
            roomTemperature = Num (of_nat (256 * unat b5 + unat b4) / 10),
            targetTemperature = Num (of_nat (256 * unat b2 + unat b1) / 10) \<rparr>"
proof -
  have general: "decode addr name (0x80 # c1 # c2 # c3 # c4 # c5 # c6 # c7 # c8 # more) =
     Some \<lparr> address = addr, deviceName = name, relayIsOn = (c8 = 1),
            roomTemperature = Num (of_nat (256 * unat c5 + unat c4) / 10),
            targetTemperature = Num (of_nat (256 * unat c2 + unat c1) / 10) \<rparr>"
    for c1 c2 c3 c4 c5 c6 c7 c8 more
    by (simp add: decode_def buf_at_def to_number_def)
  have "decode addr name [0x80, 0xC3, 0x00, 0x00, 0x00, 0xCD, 0x00, 0x00, 0x00, 0x01] =
     Some \<lparr> address = addr, deviceName = name, relayIsOn = False,
            roomTemperature = Num 5248, targetTemperature = Num 19.5 \<rparr>"
    by (simp add: general)
  moreover have "decode addr name [0x80, 0xC3, 0x00, 0x00, 0xCD, 0x00, 0x00, 0x00, 0x01] =
     Some \<lparr> address = addr, deviceName = name, relayIsOn = True,
            roomTemperature = Num 20.5, targetTemperature = Num 19.5 \<rparr>"
    by (simp add: general)
  ultimately show ?thesis
    using general [of b1 b2 b3 b4 b5 b6 b7 b8 rest] by blast
qed

text \<open>
  On the ten-byte packet the decoded object does not have room temperature 20.5 and the
  relay on: the room temperature is 5248 and the relay is off.
\<close>

theorem decode_stats_packet_counterexample:
  "decode ''90:fd:9f:12:34:56'' (js ''Livingroom'')
      [0x80, 0xC3, 0x00, 0x00, 0x00, 0xCD, 0x00, 0x00, 0x00, 0x01] \<noteq>
     Some \<lparr> address = ''90:fd:9f:12:34:56'', deviceName = js ''Livingroom'', relayIsOn = True,
            roomTemperature = Num 20.5, targetTemperature = Num 19.5 \<rparr>
   \<and> map_option roomTemperature (decode ''90:fd:9f:12:34:56'' (js ''Livingroom'')
      [0x80, 0xC3, 0x00, 0x00, 0x00, 0xCD, 0x00, 0x00, 0x00, 0x01]) = Some (Num 5248)
   \<and> map_option relayIsOn (decode ''90:fd:9f:12:34:56'' (js ''Livingroom'')
      [0x80, 0xC3, 0x00, 0x00, 0x00, 0xCD, 0x00, 0x00, 0x00, 0x01]) = Some False"
  by (simp add: decode_def buf_at_def to_number_def)

text \<open>
  C3. A packet that starts with \<open>0x80\<close> and has fewer than nine bytes is decoded without
  any failure, and no byte beyond its end is read (a missing byte is \<^verbatim>\<open>undefined\<close>): the
  object has relayIsOn false, roomTemperature \<^verbatim>\<open>NaN\<close> when the packet has fewer than six
  bytes and targetTemperature \<^verbatim>\<open>NaN\<close> when it has fewer than three.
\<close>

theorem decode_short_packet:
  "buf_at stats 0 = Some 0x80 \<Longrightarrow> length stats < 9 \<Longrightarrow>
   decode addr name stats =
     Some \<lparr> address = addr, deviceName = name, relayIsOn = False,
            roomTemperature =
              (if length stats < 6 then NaN
               else Num (of_nat (256 * unat (stats ! 5) + unat (stats ! 4)) / 10)),
            targetTemperature =
              (if length stats < 3 then NaN
               else Num (of_nat (256 * unat (stats ! 2) + unat (stats ! 1)) / 10)) \<rparr>"
proof -
  assume first: "buf_at stats 0 = Some 0x80" and short: "length stats < 9"
  from short have relay: "buf_at stats 8 = None"
    by (simp add: buf_at_def)
  have room: "js_div10 (js_add (js_mul (Num 256) (to_number (buf_at stats 5)))
                               (to_number (buf_at stats 4))) =
      (if length stats < 6 then NaN
       else Num (of_nat (256 * unat (stats ! 5) + unat (stats ! 4)) / 10))"
    by (simp add: buf_at_def to_number_def)
  have target: "js_div10 (js_add (js_mul (Num 256) (to_number (buf_at stats 2)))
                                 (to_number (buf_at stats 1))) =
      (if length stats < 3 then NaN
       else Num (of_nat (256 * unat (stats ! 2) + unat (stats ! 1)) / 10))"
    by (simp add: buf_at_def to_number_def)
  show ?thesis
    unfolding decode_def by (simp add: first relay room target del: One_nat_def)
qed

theorem decode_short_packet_witness:
  "buf_at [0x80, 0xC3, 0x00, 0x07] 0 = Some 0x80 \<and> length [0x80, 0xC3, 0x00, 0x07 :: byte] < 9 \<and>
   decode ''90:fd:9f:12:34:56'' (js ''Livingroom'') [0x80, 0xC3, 0x00, 0x07] =
     Some \<lparr> address = ''90:fd:9f:12:34:56'', deviceName = js ''Livingroom'', relayIsOn = False,
            roomTemperature = NaN, targetTemperature = Num 19.5 \<rparr>"
proof -
  have a: "buf_at [0x80, 0xC3, 0x00, 0x07] 0 = Some 0x80"
    by (simp add: buf_at_def)
  have b: "length [0x80, 0xC3, 0x00, 0x07 :: byte] < 9"
    by simp
  from decode_short_packet [OF a b, of "''90:fd:9f:12:34:56''" "js ''Livingroom''"] a b
  show ?thesis by simp
qed

text \<open>The one-byte packet \<open>[0x80]\<close> gives an object, not an error.\<close>

theorem decode_short_packet_counterexample:
  "decode ''90:fd:9f:12:34:56'' (js ''Livingroom'') [0x80] =
     Some \<lparr> address = ''90:fd:9f:12:34:56'', deviceName = js ''Livingroom'', relayIsOn = False,
            roomTemperature = NaN, targetTemperature = NaN \<rparr>"
  by (simp add: decode_def buf_at_def to_number_def)

section \<open>Properties of the device name\<close>











section \<open>Properties of the pairing file\<close>

lemma of_char_digit_char: "d < 10 \<Longrightarrow> (of_char (digit_char d) :: nat) = 48 + d"
  by (simp add: digit_char_def)

lemma is_digit_digit_char: "d < 10 \<Longrightarrow> is_digit (digit_char d)"
  by (simp add: is_digit_def of_char_digit_char)

lemma digit_val_digit_char: "d < 10 \<Longrightarrow> digit_val (digit_char d) = d"
  by (simp add: digit_val_def of_char_digit_char)

lemma of_char_comma: "(of_char (CHR '','') :: nat) = 44"
  by simp

lemma of_char_zero: "(of_char (CHR ''0'') :: nat) = 48"
  by simp

lemma is_digit_not_comma: "is_digit c \<Longrightarrow> c \<noteq> CHR '',''"
  by (auto simp: is_digit_def)

lemma digit_char_eq_zero: "d < 10 \<Longrightarrow> digit_char d = CHR ''0'' \<longleftrightarrow> d = 0"
proof -
  assume d: "d < 10"
  have "digit_char d = CHR ''0'' \<longleftrightarrow> (of_char (digit_char d) :: nat) = of_char (CHR ''0'')"
    by (simp only: of_char_eq_iff)
  with d show ?thesis by (simp add: of_char_digit_char)
qed

lemma show_nat_digits: "list_all is_digit (show_nat n)"
proof (induction n rule: show_nat.induct)
  case (1 n)
  show ?case
  proof (cases "n < 10")
    case True
    then show ?thesis by (subst show_nat.simps) (simp add: is_digit_digit_char)
  next
    case False
    with 1 show ?thesis by (subst show_nat.simps) (simp add: is_digit_digit_char)
  qed
qed

lemma show_nat_not_Nil: "show_nat n \<noteq> []"
  by (subst show_nat.simps) simp

lemma show_nat_value: "foldl (\<lambda>a c. 10 * a + digit_val c) 0 (show_nat n) = n"
proof (induction n rule: show_nat.induct)
  case (1 n)
  show ?case
  proof (cases "n < 10")
    case True
    then show ?thesis by (subst show_nat.simps) (simp add: digit_val_digit_char)
  next
    case False
    with 1 show ?thesis by (subst show_nat.simps) (simp add: digit_val_digit_char)
  qed
qed

lemma show_nat_hd: "0 < n \<Longrightarrow> hd (show_nat n) \<noteq> CHR ''0''"
proof (induction n rule: show_nat.induct)
  case (1 n)
  show ?case
  proof (cases "n < 10")
    case True
    with 1(2) show ?thesis by (subst show_nat.simps) (simp add: digit_char_eq_zero)
  next
    case False
    then have "0 < n div 10" by simp
    with 1(1) False have "hd (show_nat (n div 10)) \<noteq> CHR ''0''" by simp
    with False show ?thesis
      by (subst show_nat.simps) (simp add: show_nat_not_Nil)
  qed
qed

lemma show_nat_small: "n < 10 \<Longrightarrow> length (show_nat n) = 1"
  by (subst show_nat.simps) simp

lemma parse_number_show_nat: "parse_number (show_nat n) = Some n"
proof -
  have "length (show_nat n) = 1 \<or> hd (show_nat n) \<noteq> CHR ''0''"
  proof (cases "n < 10")
    case True
    then show ?thesis by (simp add: show_nat_small)
  next
    case False
    then show ?thesis by (simp add: show_nat_hd)
  qed
  then show ?thesis
    by (simp add: parse_number_def show_nat_not_Nil show_nat_digits show_nat_value)
qed

lemma show_nat_no_comma: "CHR '','' \<notin> set (show_nat n)"
  using show_nat_digits [of n] is_digit_not_comma by (auto simp: list_all_iff)

lemma split_commas_not_Nil: "split_commas s \<noteq> []"
  by (induction s) (auto split: list.splits)

lemma split_commas_no_comma: "CHR '','' \<notin> set x \<Longrightarrow> split_commas x = [x]"
  by (induction x) auto

lemma split_commas_append:
  "CHR '','' \<notin> set x \<Longrightarrow> split_commas (x @ CHR '','' # rest) = x # split_commas rest"
  by (induction x) auto

lemma split_join_commas:
  "xs \<noteq> [] \<Longrightarrow> \<forall>x \<in> set xs. CHR '','' \<notin> set x \<Longrightarrow> split_commas (join_commas xs) = xs"
proof (induction xs rule: join_commas.induct)
  case 1
  then show ?case by simp
next
  case (2 x)
  then show ?case by (simp add: split_commas_no_comma)
next
  case (3 x y ys)
  then show ?case by (simp add: split_commas_append)
qed

lemma join_commas_not_Nil: "xs \<noteq> [] \<Longrightarrow> \<forall>x \<in> set xs. x \<noteq> [] \<Longrightarrow> join_commas xs \<noteq> []"
  by (induction xs rule: join_commas.induct) auto

lemma those_parse_show: "those (map parse_number (map show_nat xs)) = Some xs"
  by (induction xs) (simp_all add: parse_number_show_nat)

lemma parse_array_stringify: "parse_array (JSON_stringify_array xs) = Some xs"
proof (cases "xs = []")
  case True
  then show ?thesis by (simp add: parse_array_def JSON_stringify_array_def)
next
  case False
  let ?j = "join_commas (map show_nat xs)"
  from False have j: "?j \<noteq> []"
    by (intro join_commas_not_Nil) (auto simp: show_nat_not_Nil)
  from False have s: "split_commas ?j = map show_nat xs"
    by (intro split_join_commas) (auto simp: show_nat_no_comma)
  from j have "CHR ''['' # ?j @ [CHR '']''] \<noteq> ''[]''" by (cases ?j) auto
  moreover have "butlast (tl (CHR ''['' # ?j @ [CHR '']''])) = ?j" by simp
  ultimately show ?thesis
    by (simp add: parse_array_def JSON_stringify_array_def s those_parse_show
             del: those.simps map_map)
qed

lemma JSON_parse_stringify: "JSON_parse (JSON_stringify info) = Inr info"
proof -
  let ?a = "JSON_stringify_array (resetCode info)"
  have "butlast (?a @ [CHR ''}'']) = ?a" by simp
  then show ?thesis
    by (simp add: JSON_parse_def JSON_stringify_def parse_array_stringify)
qed


section \<open>Properties of the world\<close>

lemma files_emit: "files (emit e w) = files w"
  by (simp add: emit_def)

lemma trace_emit: "trace (emit e w) = trace w @ [e]"
  by (simp add: emit_def)

lemma files_log_msg: "files (log_msg cfg level msg w) = files w"
  by (simp add: log_msg_def files_emit)

lemma actions_emit: "actions (emit e w) = actions w @ (if is_Warn e then [] else [e])"
  by (simp add: actions_def trace_emit)

lemma actions_log_msg: "actions (log_msg cfg level msg w) = actions w"
  by (simp add: log_msg_def actions_emit)

lemma saves_emit: "saves (emit e w) = saves w @ (if is_WriteFile e then [e] else [])"
  by (simp add: saves_def trace_emit)

lemma saves_log_msg: "saves (log_msg cfg level msg w) = saves w"
  by (simp add: log_msg_def saves_emit)

lemma files_writeFileSync: "files (writeFileSync filename data w) = (files w)(filename \<mapsto> data)"
  by (simp add: writeFileSync_def files_emit)

lemma actions_writeFileSync:
  "actions (writeFileSync filename data w) = actions w @ [WriteFile filename data]"
  by (simp add: writeFileSync_def actions_emit) (simp add: actions_def)

lemma files_writePairingInfo:
  "files (writePairingInfo cfg addr code w) =
     (files w)(pairingFilename addr \<mapsto> JSON_stringify \<lparr> resetCode = code \<rparr>)"
  by (simp add: writePairingInfo_def Let_def files_writeFileSync files_log_msg)

lemma actions_writePairingInfo:
  "actions (writePairingInfo cfg addr code w) =
     actions w @ [WriteFile (pairingFilename addr) (JSON_stringify \<lparr> resetCode = code \<rparr>)]"
  by (simp add: writePairingInfo_def Let_def actions_writeFileSync actions_log_msg)

lemma fst_readPairingInfo:
  "fst (readPairingInfo cfg addr w) =
     (case files w (pairingFilename addr) of None \<Rightarrow> Inl ENOENT | Some text \<Rightarrow> JSON_parse text)"
  by (simp add: readPairingInfo_def Let_def files_log_msg split: option.splits)

lemma snd_readPairingInfo:
  "snd (readPairingInfo cfg addr w) = log_msg cfg 2 [Text (''reading '' @ pairingFilename addr)] w"
  by (simp add: readPairingInfo_def Let_def split: option.splits)

lemma Buffer_from_unat: "Buffer_from (map unat bs) = bs"
  by (simp add: Buffer_from_def map_idI)

text \<open>
  C6. For every credential \<open>cred\<close> (a list of bytes, of length four or any other) and every
  address, \<^verbatim>\<open>readPairingInfo\<close> after \<^verbatim>\<open>writePairingInfo\<close> returns the object whose
  \<^verbatim>\<open>resetCode\<close> is exactly \<open>cred\<close>. Both work on one file, named \<^verbatim>\<open>pairing-\<close>, the address
  without its colons, \<^verbatim>\<open>.json\<close>: the write changes that file only, and the read depends on
  that file only.
\<close>

theorem save_load_roundtrip:
  "fst (readPairingInfo cfg addr (writePairingInfo cfg' addr (map unat cred) w)) =
     Inr \<lparr> resetCode = map unat cred \<rparr>
   \<and> files (writePairingInfo cfg' addr (map unat cred) w) =
       (files w)(''pairing-'' @ filter (\<lambda>c. c \<noteq> CHR '':'') addr @ ''.json'' \<mapsto>
                   JSON_stringify \<lparr> resetCode = map unat cred \<rparr>)
   \<and> fst (readPairingInfo cfg addr w) =
       (case files w (''pairing-'' @ filter (\<lambda>c. c \<noteq> CHR '':'') addr @ ''.json'') of
          None \<Rightarrow> Inl ENOENT | Some text \<Rightarrow> JSON_parse text)
   \<and> pairingFilename ''90:fd:9f:12:34:56'' = ''pairing-90fd9f123456.json''"
proof -
  have "fst (readPairingInfo cfg addr (writePairingInfo cfg' addr (map unat cred) w)) =
     Inr \<lparr> resetCode = map unat cred \<rparr>"
    by (simp add: fst_readPairingInfo files_writePairingInfo JSON_parse_stringify)
  moreover have "files (writePairingInfo cfg' addr (map unat cred) w) =
       (files w)(''pairing-'' @ filter (\<lambda>c. c \<noteq> CHR '':'') addr @ ''.json'' \<mapsto>
                   JSON_stringify \<lparr> resetCode = map unat cred \<rparr>)"
    by (simp add: files_writePairingInfo pairingFilename_def)
  moreover have "fst (readPairingInfo cfg addr w) =
       (case files w (''pairing-'' @ filter (\<lambda>c. c \<noteq> CHR '':'') addr @ ''.json'') of
          None \<Rightarrow> Inl ENOENT | Some text \<Rightarrow> JSON_parse text)"
    by (simp add: fst_readPairingInfo pairingFilename_def)
  moreover have "pairingFilename ''90:fd:9f:12:34:56'' = ''pairing-90fd9f123456.json''"
    by (simp add: pairingFilename_def)
  ultimately show ?thesis by blast
qed

section \<open>Properties of the authentication\<close>

lemma and_then_Continue: "and_then (Continue x w) k = k x w"
  by (simp add: and_then_def)

lemma and_then_Exited: "and_then (Exited c w) k = Exited c w"
  by (simp add: and_then_def)

lemma and_then_Running: "and_then (Running w) k = Running w"
  by (simp add: and_then_def)

lemmas and_then_simps = and_then_Continue and_then_Exited and_then_Running

lemma await_Done: "await cfg (Done x) w = Continue x w"
  by (simp add: await_def)

text \<open>
  C5. In the pairing branch, when the read and the write of the reset characteristic
  succeed: the credential is the first four bytes of the answer (all of the answer when
  it is shorter), it is saved in the pairing file of the address, whatever that file held,
  and the same bytes are written to the reset characteristic with the flag
  \<^verbatim>\<open>withoutResponse\<close> false, after the read and the save and with nothing else in between.
\<close>

theorem authenticate_pairing_branch:
  assumes "resetChar_readAsync dev = Done msg" and "resetChar_writeAsync dev = Done ()"
  shows "case authenticate cfg dev addr True (Some rc) w of
           Continue code w' \<Rightarrow>
             code = map unat (take 4 msg) \<and> length code = min 4 (length msg)
             \<and> files w' = (files w)(pairingFilename addr \<mapsto> JSON_stringify \<lparr> resetCode = code \<rparr>)
             \<and> fst (readPairingInfo cfg addr w') = Inr \<lparr> resetCode = code \<rparr>
             \<and> actions w' = actions w @
                 [ReadChar rc,
                  WriteFile (pairingFilename addr) (JSON_stringify \<lparr> resetCode = code \<rparr>),
                  WriteChar rc (take 4 msg) False]
         | _ \<Rightarrow> False"
  using assms
  by (simp add: authenticate_def obtain_resetCode_def readAsync_def writeAsync_def
      and_then_simps await_Done Let_def files_log_msg files_emit files_writePairingInfo
      actions_log_msg actions_emit actions_writePairingInfo Buffer_from_unat
      fst_readPairingInfo JSON_parse_stringify min_def)


theorem authenticate_pairing_branch_witness:
  "resetChar_readAsync example_device = Done [0xAA, 0xBB, 0xCC, 0xDD, 0x01, 0x02]
   \<and> resetChar_writeAsync example_device = Done ()
   \<and> exit_code (authenticate example_config example_device ''90:fd:9f:12:34:56'' True
          (Some RESET_CHAR_UUID) empty_world) = None
   \<and> actions (world_of (authenticate example_config example_device ''90:fd:9f:12:34:56'' True
          (Some RESET_CHAR_UUID) empty_world)) =
       [ReadChar RESET_CHAR_UUID,
        WriteFile (pairingFilename ''90:fd:9f:12:34:56'')
          (JSON_stringify \<lparr> resetCode = [170, 187, 204, 221] \<rparr>),
        WriteChar RESET_CHAR_UUID [0xAA, 0xBB, 0xCC, 0xDD] False]"
proof -
  have r: "resetChar_readAsync example_device = Done [0xAA, 0xBB, 0xCC, 0xDD, 0x01, 0x02]"
    by (simp add: example_device_def)
  have u: "resetChar_writeAsync example_device = Done ()"
    by (simp add: example_device_def)
  have e: "actions empty_world = []"
    by (simp add: actions_def empty_world_def)
  from authenticate_pairing_branch [where cfg = example_config
      and addr = "''90:fd:9f:12:34:56''" and rc = RESET_CHAR_UUID and w = empty_world, OF r u]
    r u e
  show ?thesis
    by (cases "authenticate example_config example_device ''90:fd:9f:12:34:56'' True
          (Some RESET_CHAR_UUID) empty_world") simp_all
qed

text \<open>
  With an answer of two bytes the credential has two bytes, and the write to the reset
  characteristic passes \<^verbatim>\<open>withoutResponse\<close> false: it asks for the acknowledgment.
\<close>

theorem authenticate_pairing_branch_counterexample:
  "case authenticate example_config
          (example_device\<lparr> resetChar_readAsync := Done [0xAA, 0xBB] \<rparr>)
          ''90:fd:9f:12:34:56'' True (Some RESET_CHAR_UUID) empty_world of
     Continue code w' \<Rightarrow>
       code = [170, 187] \<and> length code \<noteq> 4
       \<and> actions w' =
           [ReadChar RESET_CHAR_UUID,
            WriteFile ''pairing-90fd9f123456.json'' (JSON_stringify \<lparr> resetCode = [170, 187] \<rparr>),
            WriteChar RESET_CHAR_UUID [0xAA, 0xBB] False]
   | _ \<Rightarrow> False"
  by code_simp

lemma readPairingInfo_missing:
  "files w (pairingFilename addr) = None \<Longrightarrow>
   readPairingInfo cfg addr w =
     (Inl ENOENT, log_msg cfg 2 [Text (''reading '' @ pairingFilename addr)] w)"
  by (simp add: readPairingInfo_def Let_def files_log_msg)

lemma authenticate_missing:
  "files w (pairingFilename addr) = None \<Longrightarrow>
   authenticate cfg dev addr False resetChar w =
     Exited 1 (log_msg cfg 1 [Text (missing_pairing_message addr)]
                (log_msg cfg 2 [Text (''reading '' @ pairingFilename addr)] w))"
  by (simp add: authenticate_def obtain_resetCode_def readPairingInfo_missing and_then_simps)

lemma trace_log_msg:
  "trace (log_msg cfg level msg w) = trace w @ (if level \<le> verbosity cfg then [Warn msg] else [])"
  by (simp add: log_msg_def trace_emit)

lemma connect_missing:
  assumes "files w (pairingFilename addr) = None"
    and "connectAsync dev = Done ()"
    and "discoverAllServicesAndCharacteristicsAsync dev = Done chars"
  shows "connect cfg dev addr False w =
     Exited 1 (log_msg cfg 1 [Text (missing_pairing_message addr)]
                (log_msg cfg 2 [Text (''reading '' @ pairingFilename addr)]
                  (log_msg cfg 3 (Text ''Characteristics'' # map Characteristic chars)
                    (emit Discover
                      (log_msg cfg 2 [Text ''Discovering services and characteristics'']
                        (emit Connect (log_msg cfg 1 [Text ''Connecting''] w)))))))"
proof -
  let ?w3 = "log_msg cfg 3 (Text ''Characteristics'' # map Characteristic chars)
                    (emit Discover
                      (log_msg cfg 2 [Text ''Discovering services and characteristics'']
                        (emit Connect (log_msg cfg 1 [Text ''Connecting''] w))))"
  from assms(1) have "files ?w3 (pairingFilename addr) = None"
    by (simp add: files_log_msg files_emit)
  then have "authenticate cfg dev addr False (find (\<lambda>c. c = RESET_CHAR_UUID) chars) ?w3 =
     Exited 1 (log_msg cfg 1 [Text (missing_pairing_message addr)]
                (log_msg cfg 2 [Text (''reading '' @ pairingFilename addr)] ?w3))"
    by (rule authenticate_missing)
  with assms(2,3) show ?thesis
    by (simp add: connect_def await_Done and_then_simps Let_def)
qed

text \<open>
  C7. When the pairing file of the address is not there, \<^verbatim>\<open>readPairingInfo\<close> fails with the
  not-found error, and the normal branch ends the process with exit code 1 without any
  device action: the session exits after connecting and discovering, no characteristic is
  read or written and the loop is never entered. The line that tells the caller to enable
  pairing on the device and try again is logged at level 1: it is the last line when the
  verbosity is at least 1, and with verbosity 0 nothing at all is logged.
\<close>

theorem missing_pairing_is_fatal:
  assumes "files w (pairingFilename addr) = None"
  shows "fst (readPairingInfo cfg addr w) = Inl ENOENT
    \<and> (case authenticate cfg dev addr False resetChar w of
          Exited c w' \<Rightarrow> c = 1 \<and> actions w' = actions w
        | _ \<Rightarrow> False)
    \<and> (connectAsync dev = Done () \<and>
        discoverAllServicesAndCharacteristicsAsync dev = Done chars \<longrightarrow>
        (case connect cfg dev addr False w of
           Exited c w' \<Rightarrow>
             c = 1 \<and> actions w' = actions w @ [Connect, Discover]
             \<and> (1 \<le> verbosity cfg \<longrightarrow>
                  last (trace w') = Warn [Text (missing_pairing_message addr)])
             \<and> (verbosity cfg = 0 \<longrightarrow> trace w' = trace w @ [Connect, Discover])
         | _ \<Rightarrow> False))"
proof -
  from assms have 1: "fst (readPairingInfo cfg addr w) = Inl ENOENT"
    by (simp add: readPairingInfo_missing)
  from assms have 2: "case authenticate cfg dev addr False resetChar w of
          Exited c w' \<Rightarrow> c = 1 \<and> actions w' = actions w
        | _ \<Rightarrow> False"
    by (simp add: authenticate_missing actions_log_msg)
  have 3: "connectAsync dev = Done () \<and>
        discoverAllServicesAndCharacteristicsAsync dev = Done chars \<longrightarrow>
        (case connect cfg dev addr False w of
           Exited c w' \<Rightarrow>
             c = 1 \<and> actions w' = actions w @ [Connect, Discover]
             \<and> (1 \<le> verbosity cfg \<longrightarrow>
                  last (trace w') = Warn [Text (missing_pairing_message addr)])
             \<and> (verbosity cfg = 0 \<longrightarrow> trace w' = trace w @ [Connect, Discover])
         | _ \<Rightarrow> False)"
  proof
    assume "connectAsync dev = Done () \<and>
        discoverAllServicesAndCharacteristicsAsync dev = Done chars"
    then have c: "connectAsync dev = Done ()"
      and d: "discoverAllServicesAndCharacteristicsAsync dev = Done chars"
      by simp_all
    show "case connect cfg dev addr False w of
           Exited c w' \<Rightarrow>
             c = 1 \<and> actions w' = actions w @ [Connect, Discover]
             \<and> (1 \<le> verbosity cfg \<longrightarrow>
                  last (trace w') = Warn [Text (missing_pairing_message addr)])
             \<and> (verbosity cfg = 0 \<longrightarrow> trace w' = trace w @ [Connect, Discover])
         | _ \<Rightarrow> False"
      by (simp add: connect_missing [OF assms c d] actions_log_msg actions_emit
          trace_log_msg trace_emit)
  qed
  from 1 2 3 show ?thesis by blast
qed

theorem missing_pairing_is_fatal_witness:
  "files empty_world (pairingFilename ''90:fd:9f:12:34:56'') = None
   \<and> fst (readPairingInfo (example_config\<lparr> verbosity := 1 \<rparr>) ''90:fd:9f:12:34:56'' empty_world)
       = Inl ENOENT
   \<and> exit_code (connect (example_config\<lparr> verbosity := 1 \<rparr>) example_device
        ''90:fd:9f:12:34:56'' False empty_world) = Some 1
   \<and> last (trace (world_of (connect (example_config\<lparr> verbosity := 1 \<rparr>) example_device
        ''90:fd:9f:12:34:56'' False empty_world))) =
       Warn [Text (missing_pairing_message ''90:fd:9f:12:34:56'')]
   \<and> actions (world_of (connect (example_config\<lparr> verbosity := 1 \<rparr>) example_device
        ''90:fd:9f:12:34:56'' False empty_world)) = [Connect, Discover]"
proof -
  let ?cfg = "example_config\<lparr> verbosity := 1 \<rparr>"
  have f: "files empty_world (pairingFilename ''90:fd:9f:12:34:56'') = None"
    by (simp add: empty_world_def)
  have c: "connectAsync example_device = Done ()"
    by (simp add: example_device_def)
  have d: "discoverAllServicesAndCharacteristicsAsync example_device =
      Done [DNAME_CHAR_UUID, RESET_CHAR_UUID, STATS_CHAR_UUID]"
    by (simp add: example_device_def)
  have v: "1 \<le> verbosity ?cfg"
    by (simp add: example_config_def)
  have e: "actions empty_world = []"
    by (simp add: actions_def empty_world_def)
  from missing_pairing_is_fatal [OF f, where cfg = ?cfg and dev = example_device
      and chars = "[DNAME_CHAR_UUID, RESET_CHAR_UUID, STATS_CHAR_UUID]"] f c d v e
  show ?thesis
    by (cases "connect ?cfg example_device ''90:fd:9f:12:34:56'' False empty_world") simp_all
qed

text \<open>Without \<^verbatim>\<open>--verbose\<close> the process exits with code 1 and logs nothing.\<close>

theorem missing_pairing_is_fatal_counterexample:
  "files empty_world (pairingFilename ''90:fd:9f:12:34:56'') = None
   \<and> exit_code (connect example_config example_device ''90:fd:9f:12:34:56'' False empty_world)
       = Some 1
   \<and> trace (world_of (connect example_config example_device ''90:fd:9f:12:34:56'' False
        empty_world)) = [Connect, Discover]"
  by code_simp

lemma same_store_refl: "same_store w w"
  by (simp add: same_store_def)

lemma same_store_emit:
  "\<not> is_WriteFile e \<Longrightarrow> same_store w w1 \<Longrightarrow> same_store w (emit e w1)"
  by (simp add: same_store_def files_emit saves_emit)

lemma same_store_log_msg: "same_store w w1 \<Longrightarrow> same_store w (log_msg cfg level msg w1)"
  by (simp add: same_store_def files_log_msg saves_log_msg)

lemma same_store_dieOnError:
  "same_store w w1 \<Longrightarrow> same_store w (world_of (dieOnError e w1))"
  by (simp add: dieOnError_def same_store_emit)

lemma same_store_on_disconnect:
  "same_store w w1 \<Longrightarrow> same_store w (world_of (on_disconnect cfg w1))"
  by (simp add: on_disconnect_def same_store_log_msg)

lemma same_store_await:
  "same_store w w1 \<Longrightarrow> same_store w (world_of (await cfg r w1))"
  by (cases r) (simp_all add: await_def same_store_dieOnError same_store_on_disconnect)

lemma same_store_readAsync:
  "same_store w w1 \<Longrightarrow> same_store w (world_of (readAsync cfg ch r w1))"
  by (cases ch) (simp_all add: readAsync_def same_store_dieOnError same_store_await same_store_emit)

lemma same_store_writeAsync:
  "same_store w w1 \<Longrightarrow> same_store w (world_of (writeAsync cfg ch data flag r w1))"
  by (cases ch) (simp_all add: writeAsync_def same_store_dieOnError same_store_await same_store_emit)

lemma same_store_and_then:
  assumes "same_store w (world_of m)"
    and "\<And>x w1. same_store w w1 \<Longrightarrow> same_store w (world_of (k x w1))"
  shows "same_store w (world_of (and_then m k))"
  using assms by (cases m) (simp_all add: and_then_def)

lemma same_store_poll:
  "same_store w w1 \<Longrightarrow> same_store w (world_of (poll cfg addr name sc rs w1))"
proof (induction rs arbitrary: w1)
  case Nil
  then show ?case by (simp add: same_store_emit)
next
  case (Cons r rs)
  show ?case
    unfolding poll.simps
  proof (rule same_store_and_then)
    show "same_store w (world_of (await cfg r (emit (ReadChar sc) w1)))"
      using Cons.prems by (simp add: same_store_await same_store_emit)
  next
    fix stats w2
    assume "same_store w w2"
    then show "same_store w (world_of
        (let w2 = log_msg cfg 2 [Text ''Received stats'', Bytes stats] w2;
             w3 = (case decode addr name stats of
                     Some rd \<Rightarrow> emit (Print rd) w2
                   | None \<Rightarrow> w2)
         in if keepReading cfg
            then poll cfg addr name sc rs
                   (emit (Sleep 500) (log_msg cfg 2 [Text ''Waiting...''] w3))
            else Exited 0 w3))"
      by (auto simp: Let_def same_store_log_msg same_store_emit
          intro!: Cons.IH split: option.splits)
  qed
qed

lemma same_store_readPairingInfo:
  "same_store w w1 \<Longrightarrow> same_store w (snd (readPairingInfo cfg addr w1))"
  by (simp add: snd_readPairingInfo same_store_log_msg)

lemma same_store_obtain_resetCode:
  "same_store w w1 \<Longrightarrow> same_store w (world_of (obtain_resetCode cfg dev addr False resetChar w1))"
proof -
  assume s: "same_store w w1"
  obtain res w2 where r: "readPairingInfo cfg addr w1 = (res, w2)"
    by (cases "readPairingInfo cfg addr w1")
  with same_store_readPairingInfo [OF s, of cfg addr] have "same_store w w2"
    by simp
  with r show ?thesis
    by (cases res) (simp_all add: obtain_resetCode_def same_store_log_msg)
qed

lemma same_store_authenticate:
  "same_store w w1 \<Longrightarrow> same_store w (world_of (authenticate cfg dev addr False resetChar w1))"
  unfolding authenticate_def
  by (intro same_store_and_then same_store_obtain_resetCode same_store_writeAsync
      same_store_log_msg) simp_all

lemma same_store_connect:
  "same_store w w1 \<Longrightarrow> same_store w (world_of (connect cfg dev addr False w1))"
  unfolding connect_def Let_def
  by (intro same_store_and_then same_store_await same_store_emit same_store_log_msg
      same_store_authenticate same_store_readAsync)
    (auto simp: same_store_dieOnError same_store_poll split: option.splits)

lemma saves_writePairingInfo:
  "saves (writePairingInfo cfg addr code w) =
     saves w @ [WriteFile (pairingFilename addr) (JSON_stringify \<lparr> resetCode = code \<rparr>)]"
  by (simp add: writePairingInfo_def Let_def writeFileSync_def saves_emit)
     (simp add: saves_def log_msg_def emit_def)

text \<open>
  C10. With \<open>pairing\<close> false the files are the same after the authentication as before it,
  and no file write has happened; the same holds for the whole of \<^verbatim>\<open>connect\<close>, however it
  ends. With \<open>pairing\<close> true and an answer to the read of the reset characteristic, the
  authentication writes the pairing file once.
\<close>

theorem normal_branch_keeps_store:
  "files (world_of (authenticate cfg dev addr False resetChar w)) = files w
   \<and> saves (world_of (authenticate cfg dev addr False resetChar w)) = saves w
   \<and> files (world_of (connect cfg dev addr False w)) = files w
   \<and> saves (world_of (connect cfg dev addr False w)) = saves w
   \<and> (resetChar_readAsync dev = Done msg \<longrightarrow>
        saves (world_of (authenticate cfg dev addr True (Some rc) w)) =
          saves w @ [WriteFile (pairingFilename addr)
                       (JSON_stringify \<lparr> resetCode = map unat (take 4 msg) \<rparr>)])"
proof -
  have "same_store w (world_of (authenticate cfg dev addr False resetChar w))"
    by (rule same_store_authenticate) (rule same_store_refl)
  moreover have "same_store w (world_of (connect cfg dev addr False w))"
    by (rule same_store_connect) (rule same_store_refl)
  moreover have "resetChar_readAsync dev = Done msg \<longrightarrow>
        saves (world_of (authenticate cfg dev addr True (Some rc) w)) =
          saves w @ [WriteFile (pairingFilename addr)
                       (JSON_stringify \<lparr> resetCode = map unat (take 4 msg) \<rparr>)]"
  proof
    assume r: "resetChar_readAsync dev = Done msg"
    show "saves (world_of (authenticate cfg dev addr True (Some rc) w)) =
          saves w @ [WriteFile (pairingFilename addr)
                       (JSON_stringify \<lparr> resetCode = map unat (take 4 msg) \<rparr>)]"
      by (cases "resetChar_writeAsync dev")
        (simp_all add: r authenticate_def obtain_resetCode_def readAsync_def writeAsync_def
          and_then_simps await_def dieOnError_def on_disconnect_def Let_def
          saves_log_msg saves_emit saves_writePairingInfo)
  qed
  ultimately show ?thesis
    by (simp add: same_store_def)
qed

theorem normal_branch_keeps_store_witness:
  "resetChar_readAsync example_device = Done [0xAA, 0xBB, 0xCC, 0xDD, 0x01, 0x02]
   \<and> saves (world_of (authenticate example_config example_device ''90:fd:9f:12:34:56'' True
        (Some RESET_CHAR_UUID) empty_world)) =
      [WriteFile (pairingFilename ''90:fd:9f:12:34:56'')
         (JSON_stringify \<lparr> resetCode = [170, 187, 204, 221] \<rparr>)]
   \<and> saves (world_of (connect example_config example_device ''90:fd:9f:12:34:56'' False
        empty_world)) = []"
proof -
  have r: "resetChar_readAsync example_device = Done [0xAA, 0xBB, 0xCC, 0xDD, 0x01, 0x02]"
    by (simp add: example_device_def)
  have e: "saves empty_world = []"
    by (simp add: saves_def empty_world_def)
  from normal_branch_keeps_store [where dev = example_device and msg = "[0xAA, 0xBB, 0xCC, 0xDD, 0x01, 0x02]"
      and cfg = example_config and addr = "''90:fd:9f:12:34:56''" and rc = RESET_CHAR_UUID
      and w = empty_world] r e
  show ?thesis by simp
qed

section \<open>Properties of the polling loop\<close>

lemma poll_single:
  "\<not> keepReading cfg \<Longrightarrow>
   poll cfg addr name sc (Done stats # rs) w =
     Exited 0 (case decode addr name stats of
                 Some rd \<Rightarrow> emit (Print rd)
                              (log_msg cfg 2 [Text ''Received stats'', Bytes stats] (emit (ReadChar sc) w))
               | None \<Rightarrow> log_msg cfg 2 [Text ''Received stats'', Bytes stats] (emit (ReadChar sc) w))"
  by (simp add: await_Done and_then_simps Let_def split: option.splits)

lemma poll_continuous_step:
  "keepReading cfg \<Longrightarrow>
   poll cfg addr name sc (Done stats # rs) w =
     poll cfg addr name sc rs
       (emit (Sleep 500) (log_msg cfg 2 [Text ''Waiting...'']
          (case decode addr name stats of
             Some rd \<Rightarrow> emit (Print rd)
                          (log_msg cfg 2 [Text ''Received stats'', Bytes stats] (emit (ReadChar sc) w))
           | None \<Rightarrow> log_msg cfg 2 [Text ''Received stats'', Bytes stats] (emit (ReadChar sc) w))))"
  by (simp add: await_Done and_then_simps Let_def split: option.splits)

lemma poll_continuous_running:
  "keepReading cfg \<Longrightarrow>
   (case poll cfg addr name sc (map Done packets) w of
      Running w' \<Rightarrow>
        actions w' = actions w @
          concat (map (\<lambda>stats. iteration_actions addr name sc stats @ [Sleep 500]) packets)
          @ [ReadChar sc]
    | _ \<Rightarrow> False)"
proof (induction packets arbitrary: w)
  case Nil
  then show ?case by (simp add: actions_emit)
next
  case (Cons stats packets)
  let ?w = "emit (Sleep 500) (log_msg cfg 2 [Text ''Waiting...'']
          (case decode addr name stats of
             Some rd \<Rightarrow> emit (Print rd)
                          (log_msg cfg 2 [Text ''Received stats'', Bytes stats] (emit (ReadChar sc) w))
           | None \<Rightarrow> log_msg cfg 2 [Text ''Received stats'', Bytes stats] (emit (ReadChar sc) w)))"
  have a: "actions ?w = actions w @ iteration_actions addr name sc stats @ [Sleep 500]"
    by (simp add: actions_emit actions_log_msg iteration_actions_def split: option.splits)
  have s: "poll cfg addr name sc (map Done (stats # packets)) w =
      poll cfg addr name sc (map Done packets) ?w"
    by (simp add: poll_continuous_step [OF Cons.prems] del: poll.simps)
  show ?case
  proof (cases "poll cfg addr name sc (map Done packets) ?w")
    case (Running w')
    with Cons.IH [OF Cons.prems, of ?w]
    have "actions w' = actions ?w @
        concat (map (\<lambda>stats. iteration_actions addr name sc stats @ [Sleep 500]) packets)
        @ [ReadChar sc]"
      by simp
    with Running show ?thesis
      unfolding s a by simp
  next
    case (Continue x w')
    with Cons.IH [OF Cons.prems, of ?w] show ?thesis
      by simp
  next
    case (Exited c w')
    with Cons.IH [OF Cons.prems, of ?w] show ?thesis
      by simp
  qed
qed

lemma poll_continuous_no_success:
  "keepReading cfg \<Longrightarrow> exit_code (poll cfg addr name sc rs w) \<noteq> Some 0"
proof (induction rs arbitrary: w)
  case Nil
  then show ?case by simp
next
  case (Cons r rs)
  show ?case
  proof (cases r)
    case (Done stats)
    with Cons show ?thesis
      by (simp add: poll_continuous_step del: poll.simps)
  next
    case Rejected
    then show ?thesis
      by (simp add: await_def dieOnError_def and_then_simps)
  next
    case Disconnected
    then show ?thesis
      by (simp add: await_def on_disconnect_def and_then_simps)
  qed
qed

lemma first_byte_iff: "buf_at stats 0 = Some 0x80 \<longleftrightarrow> take 1 stats = [0x80]"
  by (cases stats) (simp_all add: buf_at_def)

lemma iteration_actions_reading:
  "take 1 stats = [0x80] \<Longrightarrow>
   iteration_actions addr name sc stats =
     [ReadChar sc,
      Print \<lparr> address = addr, deviceName = name,
              relayIsOn = (buf_at stats 8 = Some 1),
              roomTemperature =
                js_div10 (js_add (js_mul (Num 256) (to_number (buf_at stats 5)))
                                 (to_number (buf_at stats 4))),
              targetTemperature =
                js_div10 (js_add (js_mul (Num 256) (to_number (buf_at stats 2)))
                                 (to_number (buf_at stats 1))) \<rparr>]"
  by (simp add: iteration_actions_def decode_def first_byte_iff)

lemma iteration_actions_other:
  "take 1 stats \<noteq> [0x80] \<Longrightarrow> iteration_actions addr name sc stats = [ReadChar sc]"
  by (simp add: iteration_actions_def decode_def first_byte_iff)

lemma poll_single_actions:
  "\<not> keepReading cfg \<Longrightarrow>
   (case poll cfg addr name sc (Done stats # rs) w of
      Exited c w' \<Rightarrow> c = 0 \<and> actions w' = actions w @ iteration_actions addr name sc stats
    | _ \<Rightarrow> False)"
  by (simp add: poll_single actions_emit actions_log_msg iteration_actions_def
      split: option.splits del: poll.simps)

text \<open>
  C2. Without \<^verbatim>\<open>--keep-reading\<close> the loop makes one read and the process exits with code 0
  after it: when the packet starts with \<open>0x80\<close> the object decoded from it is printed, and
  when it does not (an empty packet too) nothing is printed. With \<^verbatim>\<open>--keep-reading\<close>, as long
  as the reads are answered, every turn is the read, the printed object exactly when the
  packet starts with \<open>0x80\<close>, and a wait of 500 ms, and the loop goes on to the next read;
  the process never exits with code 0.
\<close>

theorem poll_reads_once_or_repeats:
  "(\<not> keepReading cfg \<and> take 1 stats \<noteq> [0x80] \<longrightarrow>
      (case poll cfg addr name sc (Done stats # rs) w of
         Exited c w' \<Rightarrow> c = 0 \<and> actions w' = actions w @ [ReadChar sc]
       | _ \<Rightarrow> False))
   \<and> (\<not> keepReading cfg \<and> take 1 stats = [0x80] \<longrightarrow>
      (case poll cfg addr name sc (Done stats # rs) w of
         Exited c w' \<Rightarrow>
           c = 0 \<and> actions w' = actions w @
             [ReadChar sc,
              Print \<lparr> address = addr, deviceName = name,
                      relayIsOn = (buf_at stats 8 = Some 1),
                      roomTemperature =
                        js_div10 (js_add (js_mul (Num 256) (to_number (buf_at stats 5)))
                                         (to_number (buf_at stats 4))),
                      targetTemperature =
                        js_div10 (js_add (js_mul (Num 256) (to_number (buf_at stats 2)))
                                         (to_number (buf_at stats 1))) \<rparr>]
       | _ \<Rightarrow> False))
   \<and> (keepReading cfg \<longrightarrow>
      (case poll cfg addr name sc (map Done packets) w of
         Running w' \<Rightarrow>
           actions w' = actions w @
             concat (map (\<lambda>stats. iteration_actions addr name sc stats @ [Sleep 500]) packets)
             @ [ReadChar sc]
       | _ \<Rightarrow> False))
   \<and> (take 1 p \<noteq> [0x80] \<longrightarrow> iteration_actions addr name sc p = [ReadChar sc])
   \<and> (take 1 p = [0x80] \<longrightarrow>
        iteration_actions addr name sc p =
          [ReadChar sc,
           Print \<lparr> address = addr, deviceName = name,
                   relayIsOn = (buf_at p 8 = Some 1),
                   roomTemperature =
                     js_div10 (js_add (js_mul (Num 256) (to_number (buf_at p 5)))
                                      (to_number (buf_at p 4))),
                   targetTemperature =
                     js_div10 (js_add (js_mul (Num 256) (to_number (buf_at p 2)))
                                      (to_number (buf_at p 1))) \<rparr>])
   \<and> (keepReading cfg \<longrightarrow> exit_code (poll cfg addr name sc rs w) \<noteq> Some 0)"
proof -
  have 1: "\<not> keepReading cfg \<and> take 1 stats \<noteq> [0x80] \<longrightarrow>
      (case poll cfg addr name sc (Done stats # rs) w of
         Exited c w' \<Rightarrow> c = 0 \<and> actions w' = actions w @ [ReadChar sc]
       | _ \<Rightarrow> False)"
  proof
    assume h: "\<not> keepReading cfg \<and> take 1 stats \<noteq> [0x80]"
    then have "iteration_actions addr name sc stats = [ReadChar sc]"
      by (simp add: iteration_actions_other)
    with h poll_single_actions [where cfg = cfg and addr = addr and name = name and sc = sc
        and stats = stats and rs = rs and w = w]
    show "case poll cfg addr name sc (Done stats # rs) w of
         Exited c w' \<Rightarrow> c = 0 \<and> actions w' = actions w @ [ReadChar sc]
       | _ \<Rightarrow> False"
      by (cases "poll cfg addr name sc (Done stats # rs) w") (simp_all del: poll.simps)
  qed
  have 2: "\<not> keepReading cfg \<and> take 1 stats = [0x80] \<longrightarrow>
      (case poll cfg addr name sc (Done stats # rs) w of
         Exited c w' \<Rightarrow>
           c = 0 \<and> actions w' = actions w @
             [ReadChar sc,
              Print \<lparr> address = addr, deviceName = name,
                      relayIsOn = (buf_at stats 8 = Some 1),
                      roomTemperature =
                        js_div10 (js_add (js_mul (Num 256) (to_number (buf_at stats 5)))
                                         (to_number (buf_at stats 4))),
                      targetTemperature =
                        js_div10 (js_add (js_mul (Num 256) (to_number (buf_at stats 2)))
                                         (to_number (buf_at stats 1))) \<rparr>]
       | _ \<Rightarrow> False)"
  proof
    assume h: "\<not> keepReading cfg \<and> take 1 stats = [0x80]"
    then have t: "take 1 stats = [0x80]"
      by simp
    from h poll_single_actions [where cfg = cfg and addr = addr and name = name and sc = sc
        and stats = stats and rs = rs and w = w]
    show "case poll cfg addr name sc (Done stats # rs) w of
         Exited c w' \<Rightarrow>
           c = 0 \<and> actions w' = actions w @
             [ReadChar sc,
              Print \<lparr> address = addr, deviceName = name,
                      relayIsOn = (buf_at stats 8 = Some 1),
                      roomTemperature =
                        js_div10 (js_add (js_mul (Num 256) (to_number (buf_at stats 5)))
                                         (to_number (buf_at stats 4))),
                      targetTemperature =
                        js_div10 (js_add (js_mul (Num 256) (to_number (buf_at stats 2)))
                                         (to_number (buf_at stats 1))) \<rparr>]
       | _ \<Rightarrow> False"
      by (cases "poll cfg addr name sc (Done stats # rs) w")
        (simp_all add: iteration_actions_reading [OF t] del: poll.simps)
  qed
  have 3: "keepReading cfg \<longrightarrow>
      (case poll cfg addr name sc (map Done packets) w of
         Running w' \<Rightarrow>
           actions w' = actions w @
             concat (map (\<lambda>stats. iteration_actions addr name sc stats @ [Sleep 500]) packets)
             @ [ReadChar sc]
       | _ \<Rightarrow> False)"
    using poll_continuous_running [where cfg = cfg and addr = addr and name = name and sc = sc
      and packets = packets and w = w]
    by (rule impI)
  have 4: "take 1 p \<noteq> [0x80] \<longrightarrow> iteration_actions addr name sc p = [ReadChar sc]"
    by (simp add: iteration_actions_other)
  have 5: "take 1 p = [0x80] \<longrightarrow>
        iteration_actions addr name sc p =
          [ReadChar sc,
           Print \<lparr> address = addr, deviceName = name,
                   relayIsOn = (buf_at p 8 = Some 1),
                   roomTemperature =
                     js_div10 (js_add (js_mul (Num 256) (to_number (buf_at p 5)))
                                      (to_number (buf_at p 4))),
                   targetTemperature =
                     js_div10 (js_add (js_mul (Num 256) (to_number (buf_at p 2)))
                                      (to_number (buf_at p 1))) \<rparr>]"
    using iteration_actions_reading [where stats = p and addr = addr and name = name and sc = sc]
    by (rule impI)
  have 6: "keepReading cfg \<longrightarrow> exit_code (poll cfg addr name sc rs w) \<noteq> Some 0"
    using poll_continuous_no_success [where cfg = cfg and addr = addr and name = name
      and sc = sc and rs = rs and w = w]
    by (rule impI)
  show ?thesis
    by (intro conjI) (fact 1 2 3 4 5 6)+
qed

theorem poll_reads_once_or_repeats_witness:
  "\<not> keepReading example_config
   \<and> take 1 [0x00, 0x10, 0x20 :: byte] \<noteq> [0x80]
   \<and> exit_code (poll example_config ''90:fd:9f:12:34:56'' (js ''Liv'') STATS_CHAR_UUID
        [Done [0x00, 0x10, 0x20]] empty_world) = Some 0
   \<and> actions (world_of (poll example_config ''90:fd:9f:12:34:56'' (js ''Liv'') STATS_CHAR_UUID
        [Done [0x00, 0x10, 0x20]] empty_world)) = [ReadChar STATS_CHAR_UUID]
   \<and> take 1 [0x80, 0xC3, 0x00, 0x00, 0xCD, 0x00, 0x00, 0x00, 0x01 :: byte] = [0x80]
   \<and> exit_code (poll example_config ''90:fd:9f:12:34:56'' (js ''Liv'') STATS_CHAR_UUID
        [Done [0x80, 0xC3, 0x00, 0x00, 0xCD, 0x00, 0x00, 0x00, 0x01]] empty_world) = Some 0
   \<and> actions (world_of (poll example_config ''90:fd:9f:12:34:56'' (js ''Liv'') STATS_CHAR_UUID
        [Done [0x80, 0xC3, 0x00, 0x00, 0xCD, 0x00, 0x00, 0x00, 0x01]] empty_world)) =
      [ReadChar STATS_CHAR_UUID,
       Print \<lparr> address = ''90:fd:9f:12:34:56'', deviceName = js ''Liv'', relayIsOn = True,
               roomTemperature = Num 20.5, targetTemperature = Num 19.5 \<rparr>]
   \<and> keepReading (example_config\<lparr> keepReading := True \<rparr>)
   \<and> exit_code (poll (example_config\<lparr> keepReading := True \<rparr>) ''90:fd:9f:12:34:56'' (js ''Liv'')
        STATS_CHAR_UUID [Done [0x00], Done [0x00]] empty_world) = None
   \<and> actions (world_of (poll (example_config\<lparr> keepReading := True \<rparr>) ''90:fd:9f:12:34:56''
        (js ''Liv'') STATS_CHAR_UUID [Done [0x00], Done [0x00]] empty_world)) =
      [ReadChar STATS_CHAR_UUID, Sleep 500, ReadChar STATS_CHAR_UUID, Sleep 500,
       ReadChar STATS_CHAR_UUID]"
proof -
  let ?q = "[0x00, 0x10, 0x20] :: buffer"
  let ?p = "[0x80, 0xC3, 0x00, 0x00, 0xCD, 0x00, 0x00, 0x00, 0x01] :: buffer"
  let ?k = "example_config\<lparr> keepReading := True \<rparr>"
  let ?a = "''90:fd:9f:12:34:56''"
  have n: "\<not> keepReading example_config"
    by (simp add: example_config_def)
  have k: "keepReading ?k"
    by simp
  have e: "actions empty_world = []"
    by (simp add: actions_def empty_world_def)
  have tq: "take 1 ?q \<noteq> [0x80]"
    by simp
  have tp: "take 1 ?p = [0x80]"
    by simp
  have t0: "take 1 [0x00 :: byte] \<noteq> [0x80]"
    by simp
  note inst = poll_reads_once_or_repeats [where addr = ?a and name = "js ''Liv''"
      and sc = STATS_CHAR_UUID and rs = "[]" and w = empty_world]
  have a: "exit_code (poll example_config ?a (js ''Liv'') STATS_CHAR_UUID [Done ?q] empty_world)
        = Some 0
     \<and> actions (world_of (poll example_config ?a (js ''Liv'') STATS_CHAR_UUID [Done ?q]
        empty_world)) = [ReadChar STATS_CHAR_UUID]"
    using inst [where cfg = example_config and stats = ?q, THEN conjunct1] n tq e
    by (cases "poll example_config ?a (js ''Liv'') STATS_CHAR_UUID [Done ?q] empty_world")
      (simp_all del: poll.simps)
  have b: "exit_code (poll example_config ?a (js ''Liv'') STATS_CHAR_UUID [Done ?p] empty_world)
        = Some 0
     \<and> actions (world_of (poll example_config ?a (js ''Liv'') STATS_CHAR_UUID [Done ?p]
        empty_world)) =
      [ReadChar STATS_CHAR_UUID,
       Print \<lparr> address = ?a, deviceName = js ''Liv'', relayIsOn = True,
               roomTemperature = Num 20.5, targetTemperature = Num 19.5 \<rparr>]"
    using inst [where cfg = example_config and stats = ?p, THEN conjunct2, THEN conjunct1] n tp e
    by (cases "poll example_config ?a (js ''Liv'') STATS_CHAR_UUID [Done ?p] empty_world")
      (simp_all add: buf_at_def to_number_def del: poll.simps)
  have j: "iteration_actions ?a (js ''Liv'') STATS_CHAR_UUID [0x00] = [ReadChar STATS_CHAR_UUID]"
    using inst [where p = "[0x00]", THEN conjunct2, THEN conjunct2, THEN conjunct2,
        THEN conjunct1] t0
    by simp
  have c: "exit_code (poll ?k ?a (js ''Liv'') STATS_CHAR_UUID [Done [0x00], Done [0x00]]
        empty_world) = None
     \<and> actions (world_of (poll ?k ?a (js ''Liv'') STATS_CHAR_UUID [Done [0x00], Done [0x00]]
        empty_world)) =
      [ReadChar STATS_CHAR_UUID, Sleep 500, ReadChar STATS_CHAR_UUID, Sleep 500,
       ReadChar STATS_CHAR_UUID]"
    using inst [where cfg = ?k and packets = "[[0x00], [0x00]]", THEN conjunct2, THEN conjunct2,
        THEN conjunct1] k e j
    by (cases "poll ?k ?a (js ''Liv'') STATS_CHAR_UUID [Done [0x00], Done [0x00]] empty_world")
      (simp_all del: poll.simps)
  show ?thesis
    by (intro conjI)
      (fact n k tq tp a [THEN conjunct1] a [THEN conjunct2] b [THEN conjunct1]
        b [THEN conjunct2] c [THEN conjunct1] c [THEN conjunct2])+
qed

text \<open>
  A session without \<^verbatim>\<open>--keep-reading\<close> whose one stats packet starts with \<open>0x00\<close> exits with
  code 0 and has printed nothing.
\<close>

theorem poll_reads_once_or_repeats_counterexample:
  "\<not> keepReading example_config
   \<and> statsChar_readAsync example_device = [Done [0x00, 0x10, 0x20]]
   \<and> exit_code (connect example_config example_device ''90:fd:9f:12:34:56'' True empty_world)
       = Some 0
   \<and> filter is_Print (trace (world_of
        (connect example_config example_device ''90:fd:9f:12:34:56'' True empty_world))) = []"
  by (simp add: connect_def authenticate_def obtain_resetCode_def readAsync_def writeAsync_def
      await_def and_then_def writePairingInfo_def writeFileSync_def log_msg_def emit_def
      decode_def buf_at_def example_config_def example_device_def empty_world_def
      RESET_CHAR_UUID_def STATS_CHAR_UUID_def DNAME_CHAR_UUID_def Let_def)

section \<open>Properties of the discover handler\<close>

text \<open>
  C4. For manufacturer data that is there, of any length, the flag is computed without
  an exception, and it is true exactly when the data has a byte at index 10 and that byte
  is \<open>0x31\<close>; data shorter than 11 bytes gives false. The handler then logs the device
  (scan) or goes on to connect with that flag (read).
\<close>

theorem pairing_flag_of_present_data:
  "pairing_flag (Some md) = Inr (10 < length md \<and> md ! 10 = 0x31)
   \<and> (length md < 11 \<longrightarrow> pairing_flag (Some md) = Inr False)
   \<and> (accepts localName \<and> mode cfg = SCAN \<longrightarrow>
        discover cfg dev addr localName (Some md) w =
          Running (log_msg cfg 0
            [Text (''Found '' @ addr @ '' ('' @ String_of localName @ ''), pairing=''
                @ show_bool (10 < length md \<and> md ! 10 = 0x31))] w))
   \<and> (accepts localName \<and> mode cfg = READ \<and> addr = targetDeviceAddress cfg
        \<and> stopScanningAsync dev \<longrightarrow>
        discover cfg dev addr localName (Some md) w =
          connect cfg dev addr (10 < length md \<and> md ! 10 = 0x31)
            (emit StopScanning
               (log_msg cfg 1 [Text ''Found target device, stopping scanning''] w)))"
proof -
  have f: "pairing_flag (Some md) = Inr (10 < length md \<and> md ! 10 = 0x31)"
    by (simp add: pairing_flag_def buf_at_def)
  then have "length md < 11 \<longrightarrow> pairing_flag (Some md) = Inr False"
    by simp
  moreover have "accepts localName \<and> mode cfg = SCAN \<longrightarrow>
        discover cfg dev addr localName (Some md) w =
          Running (log_msg cfg 0
            [Text (''Found '' @ addr @ '' ('' @ String_of localName @ ''), pairing=''
                @ show_bool (10 < length md \<and> md ! 10 = 0x31))] w)"
    by (simp add: discover_def f)
  moreover have "accepts localName \<and> mode cfg = READ \<and> addr = targetDeviceAddress cfg
        \<and> stopScanningAsync dev \<longrightarrow>
        discover cfg dev addr localName (Some md) w =
          connect cfg dev addr (10 < length md \<and> md ! 10 = 0x31)
            (emit StopScanning
               (log_msg cfg 1 [Text ''Found target device, stopping scanning''] w))"
    by (simp add: discover_def f Let_def)
  ultimately show ?thesis
    using f by blast
qed

theorem pairing_flag_of_present_data_witness:
  "length [0x01, 0x02 :: byte] < 11
   \<and> pairing_flag (Some [0x01, 0x02]) = Inr False
   \<and> accepts (Some ''ECO16BT Liv'') \<and> mode (example_config\<lparr> mode := SCAN \<rparr>) = SCAN
   \<and> discover (example_config\<lparr> mode := SCAN \<rparr>) example_device ''90:fd:9f:12:34:56''
        (Some ''ECO16BT Liv'') (Some [0x01, 0x02]) empty_world =
      Running (log_msg (example_config\<lparr> mode := SCAN \<rparr>) 0
        [Text ''Found 90:fd:9f:12:34:56 (ECO16BT Liv), pairing=false''] empty_world)"
proof -
  have l: "length [0x01, 0x02 :: byte] < 11"
    by simp
  have a: "accepts (Some ''ECO16BT Liv'')"
    by (simp add: accepts_def String_of_def)
  have m: "mode (example_config\<lparr> mode := SCAN \<rparr>) = SCAN"
    by simp
  from pairing_flag_of_present_data [where md = "[0x01, 0x02]" and localName = "Some ''ECO16BT Liv''"
      and cfg = "example_config\<lparr> mode := SCAN \<rparr>" and dev = example_device
      and addr = "''90:fd:9f:12:34:56''" and w = empty_world] l a m
  show ?thesis
    by (simp add: show_bool_def String_of_def)
qed

text \<open>
  An accepted advertisement without manufacturer data: the index expression throws, and
  the process exits with code 1.
\<close>

theorem pairing_flag_of_present_data_counterexample:
  "accepts (Some ''ECO16BT Liv'')
   \<and> pairing_flag None = Inl TypeError
   \<and> exit_code (discover (example_config\<lparr> mode := SCAN \<rparr>) example_device ''90:fd:9f:12:34:56''
        (Some ''ECO16BT Liv'') None empty_world) = Some 1
   \<and> trace (world_of (discover (example_config\<lparr> mode := SCAN \<rparr>) example_device
        ''90:fd:9f:12:34:56'' (Some ''ECO16BT Liv'') None empty_world)) =
      [ConsoleError TypeError]"
  by code_simp

lemma take_8_prefix: "take 8 s = ''ECO16BT '' \<longleftrightarrow> (\<exists>rest. s = ''ECO16BT '' @ rest)"
proof
  assume "take 8 s = ''ECO16BT ''"
  then have "s = ''ECO16BT '' @ drop 8 s"
    by (metis append_take_drop_id)
  then show "\<exists>rest. s = ''ECO16BT '' @ rest" ..
next
  assume "\<exists>rest. s = ''ECO16BT '' @ rest"
  then show "take 8 s = ''ECO16BT ''"
    by auto
qed

text \<open>
  C8. An advertisement is accepted exactly when it has a name and the name begins with
  \<^verbatim>\<open>ECO16BT \<close>; for any other advertisement the handler returns with the world as it was:
  no log line, no error, no connection.
\<close>

theorem discover_ignores_other_names:
  "(accepts localName \<longleftrightarrow> (\<exists>rest. localName = Some (''ECO16BT '' @ rest)))
   \<and> (\<not> accepts localName \<longrightarrow>
        discover cfg dev addr localName manufacturerData w = Running w)"
proof -
  have "accepts localName \<longleftrightarrow> (\<exists>rest. localName = Some (''ECO16BT '' @ rest))"
  proof (cases localName)
    case None
    then show ?thesis by (simp add: accepts_def String_of_def)
  next
    case (Some s)
    then show ?thesis by (simp add: accepts_def String_of_def take_8_prefix)
  qed
  moreover have "\<not> accepts localName \<longrightarrow>
        discover cfg dev addr localName manufacturerData w = Running w"
    by (simp add: discover_def)
  ultimately show ?thesis by blast
qed

theorem discover_ignores_other_names_witness:
  "\<not> accepts (Some ''ECO10BTW Hall'') \<and> \<not> accepts None
   \<and> discover example_config example_device ''90:fd:9f:12:34:56'' (Some ''ECO10BTW Hall'')
        None empty_world = Running empty_world"
proof -
  have a: "\<not> accepts (Some ''ECO10BTW Hall'')"
    by (simp add: accepts_def String_of_def)
  have b: "\<not> accepts None"
    by (simp add: accepts_def String_of_def)
  from discover_ignores_other_names [where localName = "Some ''ECO10BTW Hall''" and cfg = example_config
      and dev = example_device and addr = "''90:fd:9f:12:34:56''" and manufacturerData = None
      and w = empty_world] a b
  show ?thesis by blast
qed


end
